theory Spec2Isabelle
  imports Main
begin

section \<open>Go strings and the library functions the engine calls\<close>

text \<open>
  A Go string is a sequence of bytes, modelled as \<^typ>\<open>string\<close> (a list of 8-bit
  characters). The functions below are the ones of package \<open>strings\<close> that the engine
  uses, at the byte level at which they work for the ASCII arguments they receive here.
\<close>

definition HasPrefix :: "string \<Rightarrow> string \<Rightarrow> bool" where
  "HasPrefix s p = (take (length p) s = p)"

definition TrimPrefix :: "string \<Rightarrow> string \<Rightarrow> string" where
  "TrimPrefix s p = (if HasPrefix s p then drop (length p) s else s)"

text \<open>\<open>strings.Trim(s, cutset)\<close>: every leading and trailing byte of the cutset is removed.\<close>

definition Trim :: "string \<Rightarrow> string \<Rightarrow> string" where
  "Trim s cutset =
     rev (dropWhile (\<lambda>c. c \<in> set cutset) (rev (dropWhile (\<lambda>c. c \<in> set cutset) s)))"

text \<open>\<open>strings.Contains(s, ".")\<close> for the one-byte needle the engine passes.\<close>

definition ContainsDot :: "string \<Rightarrow> bool" where
  "ContainsDot s = (CHR ''.'' \<in> set s)"

text \<open>
  \<open>strings.Replace(s, old, new, 1)\<close>: the first occurrence of \<open>old\<close> in \<open>s\<close> is replaced;
  \<open>s\<close> is returned as it is when \<open>old\<close> does not occur. An empty \<open>old\<close> matches at the
  beginning of the string.
\<close>

fun Replace1 :: "string \<Rightarrow> string \<Rightarrow> string \<Rightarrow> string" where
  "Replace1 [] old new = (if old = [] then new else [])"
| "Replace1 (c # cs) old new =
     (if HasPrefix (c # cs) old then new @ drop (length old) (c # cs)
      else c # Replace1 cs old new)"

text \<open>
  \<open>strings.TrimSpace\<close> removes the leading and trailing white space \<open>unicode.IsSpace\<close>
  accepts. The string is UTF-8, so each white-space code point is listed by its encoding:
  the six ASCII ones, U+0085, U+00A0, U+1680, U+2000 to U+200A, U+2028, U+2029, U+202F,
  U+205F and U+3000. A byte sequence that is not one of these encodings is not white
  space (an invalid or overlong encoding decodes to the replacement character).
\<close>

definition spaceRunes :: "string list" where
  "spaceRunes =
     [[CHR 0x09], [CHR 0x0A], [CHR 0x0B], [CHR 0x0C], [CHR 0x0D], [CHR 0x20],
      [CHR 0xC2, CHR 0x85], [CHR 0xC2, CHR 0xA0],
      [CHR 0xE1, CHR 0x9A, CHR 0x80],
      [CHR 0xE2, CHR 0x80, CHR 0x80], [CHR 0xE2, CHR 0x80, CHR 0x81],
      [CHR 0xE2, CHR 0x80, CHR 0x82], [CHR 0xE2, CHR 0x80, CHR 0x83],
      [CHR 0xE2, CHR 0x80, CHR 0x84], [CHR 0xE2, CHR 0x80, CHR 0x85],
      [CHR 0xE2, CHR 0x80, CHR 0x86], [CHR 0xE2, CHR 0x80, CHR 0x87],
      [CHR 0xE2, CHR 0x80, CHR 0x88], [CHR 0xE2, CHR 0x80, CHR 0x89],
      [CHR 0xE2, CHR 0x80, CHR 0x8A],
      [CHR 0xE2, CHR 0x80, CHR 0xA8], [CHR 0xE2, CHR 0x80, CHR 0xA9],
      [CHR 0xE2, CHR 0x80, CHR 0xAF],
      [CHR 0xE2, CHR 0x81, CHR 0x9F],
      [CHR 0xE3, CHR 0x80, CHR 0x80]]"

text \<open>The encoding of a white-space code point the string starts with, if there is one.\<close>

definition leadingSpace :: "string list \<Rightarrow> string \<Rightarrow> string option" where
  "leadingSpace runes s = find (\<lambda>p. p \<noteq> [] \<and> HasPrefix s p) runes"

function trimLeading :: "string list \<Rightarrow> string \<Rightarrow> string" where
  "trimLeading runes s =
     (case leadingSpace runes s of
        None \<Rightarrow> s
      | Some p \<Rightarrow> trimLeading runes (drop (length p) s))"
  by pat_completeness auto

termination
proof (relation "measure (\<lambda>(runes, s). length s)")
  show "wf (measure (\<lambda>(runes, s). length s))" by simp
next
  fix runes :: "string list" and s p :: string
  assume "leadingSpace runes s = Some p"
  then have "p \<noteq> []" and "HasPrefix s p"
    by (auto simp: leadingSpace_def find_Some_iff)
  then have "s \<noteq> []" by (auto simp: HasPrefix_def)
  with \<open>p \<noteq> []\<close> show "((runes, drop (length p) s), (runes, s)) \<in> measure (\<lambda>(runes, s). length s)"
    by simp
qed

declare trimLeading.simps [simp del]

definition TrimSpace :: "string \<Rightarrow> string" where
  "TrimSpace s = rev (trimLeading (map rev spaceRunes) (rev (trimLeading spaceRunes s)))"

section \<open>The token scanner\<close>

text \<open>
  \<open>ParseVars\<close> scans with the regular expression \<^verbatim>\<open>\$\w+|\$\{[^}]+\}|\$@\<close>. In Go's
  syntax \<^verbatim>\<open>\w\<close> is the ASCII class \<^verbatim>\<open>[0-9A-Za-z_]\<close> and a negated class matches
  every other code point, a line feed included. The three alternatives differ in the
  byte after the dollar sign, so at most one of them applies at a position; \<^verbatim>\<open>\w+\<close>
  is greedy, and \<^verbatim>\<open>[^}]+\<close> runs to the first closing brace, which must exist.
\<close>

definition isWord :: "char \<Rightarrow> bool" where
  "isWord c =
     (let n = of_char c :: nat in
      (48 \<le> n \<and> n \<le> 57) \<or> (65 \<le> n \<and> n \<le> 90) \<or> (97 \<le> n \<and> n \<le> 122) \<or> n = 95)"

text \<open>The match that starts at the first byte of the string, if any.\<close>

definition matchAt :: "string \<Rightarrow> string option" where
  "matchAt s =
     (case s of
        [] \<Rightarrow> None
      | c # rest \<Rightarrow>
          if c \<noteq> CHR ''$'' then None
          else if takeWhile isWord rest \<noteq> [] then Some (c # takeWhile isWord rest)
          else (case rest of
                  [] \<Rightarrow> None
                | d # body \<Rightarrow>
                    if d = CHR ''{'' then
                      (let inner = takeWhile (\<lambda>x. x \<noteq> CHR ''}'') body in
                       if inner \<noteq> [] \<and> length inner < length body
                       then Some (c # d # inner @ ''}'')
                       else None)
                    else if d = CHR ''@'' then Some [c, d]
                    else None))"

text \<open>
  \<open>FindAllString(text, -1)\<close>: the successive leftmost matches, none overlapping; the
  search resumes right after a match, and one byte further where nothing matches.
\<close>

function FindAllString :: "string \<Rightarrow> string list" where
  "FindAllString [] = []"
| "FindAllString (c # cs) =
     (case matchAt (c # cs) of
        None \<Rightarrow> FindAllString cs
      | Some m \<Rightarrow> m # FindAllString (drop (length m - 1) cs))"
  by pat_completeness auto
termination
  by (relation "measure length") auto

section \<open>Configuration\<close>

text \<open>
  The structs of \<open>types.go\<close>. A Go slice is \<open>nil\<close> or a (possibly empty) sequence, and
  the engine tests \<open>target.Run == nil\<close>, so a slice is an optional list with \<open>None\<close> for
  \<open>nil\<close>. The maps are partial functions; reading an absent key gives the zero value.
\<close>

record Target =
  Run :: "string list option"
  Deps :: "string list option"
  Onerror :: string
  ContinueOnError :: bool

record Config =
  cfgContinueOnError :: bool
  Includes :: "string list option"
  Prologue :: Target
  Vars :: "string \<rightharpoonup> string"
  Targets :: "string \<rightharpoonup> Target"
  Epilogue :: Target

text \<open>What \<open>range\<close> iterates over: nothing for a \<open>nil\<close> slice.\<close>

definition elems :: "'a list option \<Rightarrow> 'a list" where
  "elems s = (case s of None \<Rightarrow> [] | Some xs \<Rightarrow> xs)"

definition zeroTarget :: Target where
  "zeroTarget = \<lparr>Run = None, Deps = None, Onerror = [], ContinueOnError = False\<rparr>"

definition GetTarget :: "Config \<Rightarrow> string \<Rightarrow> Target" where
  "GetTarget cfg name = (case Targets cfg name of None \<Rightarrow> zeroTarget | Some t \<Rightarrow> t)"

section \<open>The process and its surroundings\<close>

text \<open>
  What the engine does to the outside is recorded as a trace of events, in the order in
  which they happen: text written to standard output and to standard error, a shell
  process spawned for a command, and a call of \<open>os.Chdir\<close>.
\<close>

datatype event = Stdout string | Stderr string | Spawn string | Chdir string

text \<open>
  The state a run threads through: the working directory of the process, the state
  \<open>'x\<close> of everything outside the process (files, the clock), and the trace.
\<close>

record 'x world =
  cwd :: string
  ext :: 'x
  events :: "event list"

text \<open>
  The operating system, as the engine sees it. \<open>shell command dir x\<close> is what running the
  command in the platform shell (\<^verbatim>\<open>cmd /C\<close> or \<^verbatim>\<open>/bin/bash -c\<close>) gives in working
  directory \<open>dir\<close> and outside state \<open>x\<close>: the combined output, the error text when the
  process could not be spawned or left with a non-zero status, and the new outside state.
  \<open>chdir dir' dir x\<close> is the error text of \<open>os.Chdir\<close> or the new working directory.
  \<open>environ\<close> is the environment of the process and \<open>clock\<close> the local time, formatted
  as \<^verbatim>\<open>2006-01-02 15:04:05\<close>.
\<close>

record 'x os =
  shell :: "string \<Rightarrow> string \<Rightarrow> 'x \<Rightarrow> (string \<times> string option) \<times> 'x"
  chdir :: "string \<Rightarrow> string \<Rightarrow> 'x \<Rightarrow> string + string"
  environ :: "string \<rightharpoonup> string"
  clock :: "'x \<Rightarrow> string"

definition emit :: "event \<Rightarrow> 'x world \<Rightarrow> 'x world" where
  "emit e w = w\<lparr>events := events w @ [e]\<rparr>"

definition LF :: char where
  "LF = CHR 0x0A"

text \<open>\<open>os.Getenv\<close>: the empty string for a variable that is not set.\<close>

definition Getenv :: "'x os \<Rightarrow> string \<Rightarrow> string" where
  "Getenv os name = (case environ os name of None \<Rightarrow> [] | Some v \<Rightarrow> v)"

section \<open>Variable resolution\<close>

text \<open>
  \<open>GetVar\<close> as the context-aware engine has it: a configured variable is returned
  whenever the key exists.
\<close>

definition GetVar :: "'x os \<Rightarrow> Config \<Rightarrow> string \<Rightarrow> string \<Rightarrow> 'x world \<Rightarrow> string" where
  "GetVar os cfg name target_name w =
     (let name = Trim name ''$'' in
      if name = ''TIMESTAMP'' then clock os (ext w)
      else if name = ''@'' then target_name
      else if name = ''cwd'' then cwd w
      else (case Vars cfg name of
              Some ret \<Rightarrow> ret
            | None \<Rightarrow> Getenv os name))"

text \<open>
  \<open>GetVar\<close> of \<open>funcs.go\<close>: the configured value is read with the zero value for an
  absent key, and a blank value falls through to the environment.
\<close>

definition GetVar_old :: "'x os \<Rightarrow> Config \<Rightarrow> string \<Rightarrow> string \<Rightarrow> 'x world \<Rightarrow> string" where
  "GetVar_old os cfg name target_name w =
     (let name = Trim name ''$'' in
      if name = ''TIMESTAMP'' then clock os (ext w)
      else if name = ''@'' then target_name
      else if name = ''cwd'' then cwd w
      else (let ret = (case Vars cfg name of None \<Rightarrow> [] | Some v \<Rightarrow> v) in
            if TrimSpace ret = [] then Getenv os name else ret))"

section \<open>Token substitution\<close>

text \<open>
  The loop of \<open>ParseVars\<close> over the matches collected from the original text. The
  working text and the world (a warning goes to standard error) are threaded through.
  \<open>ParseVars\<close> calls the \<open>GetVar\<close> of the program it is built into, so the loop takes the
  resolver as an argument.
\<close>

fun ParseVars_loop ::
  "(string \<Rightarrow> string \<Rightarrow> 'x world \<Rightarrow> string) \<Rightarrow> string \<Rightarrow> string list \<Rightarrow> string \<Rightarrow> 'x world
     \<Rightarrow> string \<times> 'x world" where
  "ParseVars_loop getvar targetname [] text w = (text, w)"
| "ParseVars_loop getvar targetname (m # ms) text w =
     (let varname = Trim (TrimPrefix m ''$'') ''{}'';
          val = getvar (''$'' @ varname) targetname w
      in if val = [] then
           ParseVars_loop getvar targetname ms text
             (emit (Stderr (''[warn] undefined variable '' @ m @ '' in target '' @ targetname @ [LF])) w)
         else ParseVars_loop getvar targetname ms (Replace1 text m val) w)"

definition ParseVars :: "'x os \<Rightarrow> Config \<Rightarrow> string \<Rightarrow> string \<Rightarrow> 'x world \<Rightarrow> string \<times> 'x world" where
  "ParseVars os cfg text targetname w =
     ParseVars_loop (GetVar os cfg) targetname (FindAllString text) text w"

text \<open>\<open>ParseVars\<close> as built with \<open>GetVar\<close> of \<open>funcs.go\<close>.\<close>

definition ParseVars_old :: "'x os \<Rightarrow> Config \<Rightarrow> string \<Rightarrow> string \<Rightarrow> 'x world \<Rightarrow> string \<times> 'x world" where
  "ParseVars_old os cfg text targetname w =
     ParseVars_loop (GetVar_old os cfg) targetname (FindAllString text) text w"

section \<open>Command dispatch\<close>

text \<open>
  A Go \<open>error\<close> returned by \<open>ExecuteCommand\<close> is kept as its text (\<open>err.Error()\<close>), which
  is all the engine reads of it; \<open>None\<close> is \<open>nil\<close>.
\<close>

definition ExecuteCommand ::
  "'x os \<Rightarrow> string \<Rightarrow> 'x world \<Rightarrow> (string \<times> string option) \<times> 'x world" where
  "ExecuteCommand os command w =
     (if TrimSpace command = [] then (([], Some ''empty command''), w)
      else
        let w1 = emit (Stdout (command @ [LF])) w in
        if HasPrefix command ''cd '' then
          (let dir = TrimSpace (TrimPrefix command ''cd '') in
           if dir = [] then (([], Some ''no directory specified for cd''), w1)
           else (case chdir os dir (cwd w1) (ext w1) of
                   Inl err \<Rightarrow> (([], Some err), emit (Chdir dir) w1)
                 | Inr d \<Rightarrow> (([], None), (emit (Chdir dir) w1)\<lparr>cwd := d\<rparr>)))
        else
          (case shell os command (cwd w1) (ext w1) of
             ((out, err), x) \<Rightarrow> ((out, err), (emit (Spawn command) w1)\<lparr>ext := x\<rparr>)))"

text \<open>
  \<open>ExecuteCommand\<close> of the older \<open>executor.go\<close>: the same, without the check for an
  empty command.
\<close>

definition ExecuteCommand_old ::
  "'x os \<Rightarrow> string \<Rightarrow> 'x world \<Rightarrow> (string \<times> string option) \<times> 'x world" where
  "ExecuteCommand_old os command w =
     (let w1 = emit (Stdout (command @ [LF])) w in
      if HasPrefix command ''cd '' then
        (let dir = TrimSpace (TrimPrefix command ''cd '') in
         if dir = [] then (([], Some ''no directory specified for cd''), w1)
         else (case chdir os dir (cwd w1) (ext w1) of
                 Inl err \<Rightarrow> (([], Some err), emit (Chdir dir) w1)
               | Inr d \<Rightarrow> (([], None), (emit (Chdir dir) w1)\<lparr>cwd := d\<rparr>)))
      else
        (case shell os command (cwd w1) (ext w1) of
           ((out, err), x) \<Rightarrow> ((out, err), (emit (Spawn command) w1)\<lparr>ext := x\<rparr>)))"

text \<open>The arrow U+2192 that the verbose echo starts with, in UTF-8.\<close>

definition arrow :: string where
  "arrow = [CHR 0xE2, CHR 0x86, CHR 0x92]"

definition ExecuteCommandWithContext ::
  "'x os \<Rightarrow> string \<Rightarrow> bool \<Rightarrow> bool \<Rightarrow> 'x world \<Rightarrow> (string \<times> string option) \<times> 'x world" where
  "ExecuteCommandWithContext os command verbose dryRun w =
     (let w1 = (if verbose then emit (Stdout (arrow @ '' '' @ command @ [LF])) w else w) in
      if dryRun then
        (([], None), emit (Stdout (''  [DRY RUN] Would execute: '' @ command @ [LF])) w1)
      else ExecuteCommand os command w1)"

section \<open>Running the commands of a target\<close>

text \<open>The errors of the \<open>orpheus\<close> library that the engine returns, with their arguments.\<close>

datatype orpheus_error =
  ExecutionError string string
| NotFoundError string string

text \<open>
  One turn of the loop of \<open>ExecuteAllWithContext\<close>: the error with which the loop
  returns, or \<open>None\<close> when it goes on to the next command.
\<close>

definition ExecuteAllWithContext_body ::
  "'x os \<Rightarrow> Config \<Rightarrow> string \<Rightarrow> Target \<Rightarrow> bool \<Rightarrow> bool \<Rightarrow> string \<Rightarrow> 'x world
     \<Rightarrow> orpheus_error option \<times> 'x world" where
  "ExecuteAllWithContext_body os cfg name target verbose dryRun cmd w =
     (case ParseVars os cfg cmd name w of
        (cmd', w1) \<Rightarrow>
          (case ExecuteCommandWithContext os cmd' verbose dryRun w1 of
             ((out, err), w2) \<Rightarrow>
               let printed = (if TrimSpace out \<noteq> [] \<and> \<not> dryRun then emit (Stdout out) else id) in
               (case err of
                  None \<Rightarrow> (None, printed w2)
                | Some e \<Rightarrow>
                    if dryRun then (None, printed w2)
                    else
                      let outerr = ''in '' @ name @ '' -> '' @ [LF] @
                            (if TrimSpace (Onerror target) = [] then e else Onerror target)
                      in if ContinueOnError target \<or> cfgContinueOnError cfg then
                           (None, printed (emit (Stderr (''Warning: '' @ outerr @ [LF])) w2))
                         else (Some (ExecutionError name outerr), w2))))"

fun ExecuteAllWithContext_loop ::
  "'x os \<Rightarrow> Config \<Rightarrow> string \<Rightarrow> Target \<Rightarrow> bool \<Rightarrow> bool \<Rightarrow> string list \<Rightarrow> 'x world
     \<Rightarrow> orpheus_error option \<times> 'x world" where
  "ExecuteAllWithContext_loop os cfg name target verbose dryRun [] w = (None, w)"
| "ExecuteAllWithContext_loop os cfg name target verbose dryRun (cmd # cmds) w =
     (case ExecuteAllWithContext_body os cfg name target verbose dryRun cmd w of
        (Some e, w') \<Rightarrow> (Some e, w')
      | (None, w') \<Rightarrow> ExecuteAllWithContext_loop os cfg name target verbose dryRun cmds w')"

definition ExecuteAllWithContext ::
  "'x os \<Rightarrow> Config \<Rightarrow> string \<Rightarrow> Target \<Rightarrow> bool \<Rightarrow> bool \<Rightarrow> 'x world
     \<Rightarrow> orpheus_error option \<times> 'x world" where
  "ExecuteAllWithContext os cfg name target verbose dryRun w =
     ExecuteAllWithContext_loop os cfg name target verbose dryRun (elems (Run target)) w"

section \<open>The dependency walk\<close>

text \<open>
  \<open>RunDepsWithContext\<close> and \<open>runTargetWithContext\<close> call each other, and nothing bounds
  the recursion, so the two are one partial function on the call made: \<open>None\<close> is a call
  that returns no result to its caller, because the recursion goes on without end (the
  Go runtime ends such a process when the stack is used up; the model says no more than
  that the call does not return). \<open>RunDeps deps\<close> is the loop of \<open>RunDepsWithContext\<close> at
  the dependencies still to go.
\<close>

datatype call = RunDeps "string list" | RunTarget string

partial_function (option) walk ::
  "'x os \<Rightarrow> Config \<Rightarrow> bool \<Rightarrow> bool \<Rightarrow> call \<Rightarrow> 'x world
     \<Rightarrow> (orpheus_error option \<times> 'x world) option" where
  "walk os cfg verbose dryRun c w =
     (case c of
        RunDeps [] \<Rightarrow> Some (None, w)
      | RunDeps (dep # deps) \<Rightarrow>
          if ContainsDot dep then
            walk os cfg verbose dryRun (RunDeps deps)
              (if verbose then emit (Stdout (''Checking file dependency: '' @ dep @ [LF])) w else w)
          else
            Option.bind (walk os cfg verbose dryRun (RunTarget dep) w)
              (\<lambda>(err, w').
                 case err of
                   Some e \<Rightarrow> Some (Some e, w')
                 | None \<Rightarrow> walk os cfg verbose dryRun (RunDeps deps) w')
      | RunTarget name \<Rightarrow>
          (let target = GetTarget cfg name in
           Option.bind (walk os cfg verbose dryRun (RunDeps (elems (Deps target))) w)
             (\<lambda>(err, w').
                case err of
                  Some e \<Rightarrow> Some (Some e, w')
                | None \<Rightarrow>
                    if Run target = None \<and> Deps target = None then
                      Some (Some (NotFoundError name
                                    (''target '' @ [CHR 0x27] @ name @ [CHR 0x27] @ '' not found'')), w')
                    else Some (ExecuteAllWithContext os cfg name target verbose dryRun w'))))"

definition RunDepsWithContext ::
  "'x os \<Rightarrow> Config \<Rightarrow> Target \<Rightarrow> bool \<Rightarrow> bool \<Rightarrow> 'x world
     \<Rightarrow> (orpheus_error option \<times> 'x world) option" where
  "RunDepsWithContext os cfg t verbose dryRun w =
     walk os cfg verbose dryRun (RunDeps (elems (Deps t))) w"

definition runTargetWithContext ::
  "'x os \<Rightarrow> Config \<Rightarrow> string \<Rightarrow> bool \<Rightarrow> bool \<Rightarrow> 'x world
     \<Rightarrow> (orpheus_error option \<times> 'x world) option" where
  "runTargetWithContext os cfg name verbose dryRun w =
     walk os cfg verbose dryRun (RunTarget name) w"

declare walk.simps [code]

section \<open>The older engine\<close>

text \<open>
  \<open>executor.go\<close> with its exceptions: a failure is written to standard error by
  \<open>RaiseException\<close>, which leaves the process with the number of the exception unless it is
  told to go on. A result \<open>Some n\<close> is \<open>os.Exit(n)\<close>; \<open>None\<close> is a normal return.
\<close>

datatype exception = TARGET_NOT_FOUND | FILE_NOT_FOUND | TARGET_ERROR

definition exception_number :: "exception \<Rightarrow> int" where
  "exception_number x = (case x of TARGET_NOT_FOUND \<Rightarrow> 1 | FILE_NOT_FOUND \<Rightarrow> 2 | TARGET_ERROR \<Rightarrow> 3)"

text \<open>The message of an exception, with the value in the place of \<^verbatim>\<open>%s\<close>.\<close>

definition Exps :: "exception \<Rightarrow> string \<Rightarrow> string" where
  "Exps x v =
     (case x of
        TARGET_NOT_FOUND \<Rightarrow> ''Target '' @ v @ '' Not Found''
      | FILE_NOT_FOUND \<Rightarrow> ''aura.yaml Not Found In '' @ [CHR 0x27] @ v @ [CHR 0x27]
      | TARGET_ERROR \<Rightarrow> ''TargetError: '' @ v)"

definition RaiseException :: "exception \<Rightarrow> string \<Rightarrow> bool \<Rightarrow> 'x world \<Rightarrow> int option \<times> 'x world" where
  "RaiseException x v exit w =
     (let w1 = emit (Stderr (Exps x v @ [LF])) w in
      if \<not> exit then (Some (exception_number x), w1) else (None, w1))"

definition SkipError :: "Config \<Rightarrow> bool \<Rightarrow> bool" where
  "SkipError cfg local = (local \<or> cfgContinueOnError cfg)"

fun ExecuteAll_old_loop ::
  "'x os \<Rightarrow> Config \<Rightarrow> string \<Rightarrow> Target \<Rightarrow> string list \<Rightarrow> 'x world \<Rightarrow> int option \<times> 'x world" where
  "ExecuteAll_old_loop os cfg name target [] w = (None, w)"
| "ExecuteAll_old_loop os cfg name target (cmd # cmds) w =
     (case ParseVars_old os cfg cmd name w of
        (cmd', w1) \<Rightarrow>
          (case ExecuteCommand_old os cmd' w1 of
             ((out, err), w2) \<Rightarrow>
               (case (case err of
                        None \<Rightarrow> (None, w2)
                      | Some e \<Rightarrow>
                          RaiseException TARGET_ERROR
                            (''in '' @ name @ '' -> '' @ [LF] @
                               (if TrimSpace (Onerror target) = [] then e else Onerror target))
                            (SkipError cfg (ContinueOnError target)) w2) of
                  (Some n, w3) \<Rightarrow> (Some n, w3)
                | (None, w3) \<Rightarrow>
                    ExecuteAll_old_loop os cfg name target cmds
                      (if TrimSpace out \<noteq> [] then emit (Stdout out) w3 else w3))))"

definition ExecuteAll_old ::
  "'x os \<Rightarrow> Config \<Rightarrow> string \<Rightarrow> Target \<Rightarrow> 'x world \<Rightarrow> int option \<times> 'x world" where
  "ExecuteAll_old os cfg name target w =
     ExecuteAll_old_loop os cfg name target (elems (Run target)) w"

text \<open>\<open>RunDeps\<close> and \<open>RunTarget\<close> of the older engine, as one partial function again.\<close>

partial_function (option) walk_old ::
  "'x os \<Rightarrow> Config \<Rightarrow> call \<Rightarrow> 'x world \<Rightarrow> (int option \<times> 'x world) option" where
  "walk_old os cfg c w =
     (case c of
        RunDeps [] \<Rightarrow> Some (None, w)
      | RunDeps (dep # deps) \<Rightarrow>
          if ContainsDot dep then walk_old os cfg (RunDeps deps) w
          else
            Option.bind (walk_old os cfg (RunTarget dep) w)
              (\<lambda>(exited, w').
                 case exited of
                   Some n \<Rightarrow> Some (Some n, w')
                 | None \<Rightarrow> walk_old os cfg (RunDeps deps) w')
      | RunTarget name \<Rightarrow>
          (let target = GetTarget cfg name in
           Option.bind (walk_old os cfg (RunDeps (elems (Deps target))) w)
             (\<lambda>(exited, w').
                case exited of
                  Some n \<Rightarrow> Some (Some n, w')
                | None \<Rightarrow>
                    (let exit = SkipError cfg (ContinueOnError target) in
                     case (if Run target = None \<and> Deps target = None
                           then RaiseException TARGET_NOT_FOUND name exit w'
                           else (None, w')) of
                       (Some n, w'') \<Rightarrow> Some (Some n, w'')
                     | (None, w'') \<Rightarrow>
                         Some (ExecuteAll_old os cfg name target w'')))))"

definition RunTarget_old :: "'x os \<Rightarrow> Config \<Rightarrow> string \<Rightarrow> 'x world \<Rightarrow> (int option \<times> 'x world) option" where
  "RunTarget_old os cfg name w = walk_old os cfg (RunTarget name) w"

declare walk_old.simps [code]

section \<open>Notions the properties are stated with\<close>

text \<open>
  A string made of white space only: a concatenation of encodings of white-space code
  points (the empty string among them).
\<close>

definition whitespaceOnly :: "string \<Rightarrow> bool" where
  "whitespaceOnly s = (\<exists>rs. set rs \<subseteq> set spaceRunes \<and> s = concat rs)"

text \<open>The events that reach the operating system beyond writing to the two streams.\<close>

definition isOsCall :: "event \<Rightarrow> bool" where
  "isOsCall e = (case e of Spawn c \<Rightarrow> True | Chdir d \<Rightarrow> True | Stdout t \<Rightarrow> False | Stderr t \<Rightarrow> False)"

text \<open>The diagnostic \<open>ExecuteAllWithContext\<close> composes for a failed command.\<close>

definition diagnostic :: "string \<Rightarrow> Target \<Rightarrow> string \<Rightarrow> string" where
  "diagnostic name target e =
     ''in '' @ name @ '' -> '' @ [LF] @ (if TrimSpace (Onerror target) = [] then e else Onerror target)"

text \<open>The names \<open>GetVar\<close> resolves without looking at the configured variables.\<close>

definition builtin :: "string \<Rightarrow> bool" where
  "builtin n = (n = ''TIMESTAMP'' \<or> n = ''@'' \<or> n = ''cwd'')"

text \<open>
  The name under which a token is looked up: \<open>ParseVars\<close> strips the dollar sign and the
  braces and passes the rest, behind a dollar sign, to \<open>GetVar\<close>, which trims dollar
  signs.
\<close>

definition tokenName :: "string \<Rightarrow> string" where
  "tokenName m = Trim (''$'' @ Trim (TrimPrefix m ''$'') ''{}'') ''$''"

text \<open>The warning for an undefined token, and the tokens that get one.\<close>

definition undefinedWarning :: "string \<Rightarrow> string \<Rightarrow> event" where
  "undefinedWarning targetname m =
     Stderr (''[warn] undefined variable '' @ m @ '' in target '' @ targetname @ [LF])"

definition resolvesEmpty :: "'x os \<Rightarrow> Config \<Rightarrow> string \<Rightarrow> 'x world \<Rightarrow> string \<Rightarrow> bool" where
  "resolvesEmpty os cfg targetname w m =
     (GetVar os cfg (''$'' @ Trim (TrimPrefix m ''$'') ''{}'') targetname w = [])"

text \<open>The continuation policy: the target's own setting or the global one.\<close>

definition effectiveContinue :: "Config \<Rightarrow> Target \<Rightarrow> bool" where
  "effectiveContinue cfg target = (ContinueOnError target \<or> cfgContinueOnError cfg)"

text \<open>The captured output of a command, printed when it is not blank.\<close>

definition printOutput :: "string \<Rightarrow> 'x world \<Rightarrow> 'x world" where
  "printOutput out w = (if TrimSpace out \<noteq> [] then emit (Stdout out) w else w)"

text \<open>
  The first entry of a dependency list that names a target (an entry with a dot is a
  file and is passed over).
\<close>

definition firstTargetDep :: "string list \<Rightarrow> string option" where
  "firstTargetDep deps = find (\<lambda>dep. \<not> ContainsDot dep) deps"

text \<open>The target an error names.\<close>

definition errorTarget :: "orpheus_error \<Rightarrow> string" where
  "errorTarget e = (case e of ExecutionError n m \<Rightarrow> n | NotFoundError n m \<Rightarrow> n)"

text \<open>
  A dependency cycle: a set of target names in which every target has a target of the
  set among its dependencies, at any place of the list.
\<close>

definition cycleIn :: "Config \<Rightarrow> string set \<Rightarrow> bool" where
  "cycleIn cfg S =
     (\<forall>n\<in>S. \<exists>d\<in>set (elems (Deps (GetTarget cfg n))). \<not> ContainsDot d \<and> d \<in> S)"

text \<open>The calls that lead into the set \<open>S\<close>: a target of it, or a list that names one.\<close>

definition reachesCycle :: "string set \<Rightarrow> call \<Rightarrow> bool" where
  "reachesCycle S c =
     (case c of
        RunTarget n \<Rightarrow> n \<in> S
      | RunDeps deps \<Rightarrow> (\<exists>d\<in>set deps. \<not> ContainsDot d \<and> d \<in> S))"

text \<open>
  A set of target names in which every target reaches, as its first target dependency,
  a target of the set again: a cycle that the walk enters before anything else, such as
  \<open>A\<close> and \<open>B\<close> that depend on each other.
\<close>

definition cycleClosed :: "Config \<Rightarrow> string set \<Rightarrow> bool" where
  "cycleClosed cfg S =
     (\<forall>n\<in>S. \<exists>d\<in>S. firstTargetDep (elems (Deps (GetTarget cfg n))) = Some d)"

text \<open>The calls from which the walk re-enters the set \<open>S\<close> before anything else returns.\<close>

definition entersCycle :: "string set \<Rightarrow> call \<Rightarrow> bool" where
  "entersCycle S c =
     (case c of
        RunTarget n \<Rightarrow> n \<in> S
      | RunDeps deps \<Rightarrow> (\<exists>d\<in>S. firstTargetDep deps = Some d))"

section \<open>A sample system\<close>

text \<open>
  A shell in which the command \<open>fail\<close> leaves with status 1 and every other command
  succeeds, a directory change that fails for \<open>/missing\<close>, and an environment with two
  variables. The outside state is not inspected.
\<close>

definition demoShell :: "string \<Rightarrow> string \<Rightarrow> unit \<Rightarrow> (string \<times> string option) \<times> unit" where
  "demoShell command dir x =
     (if command = ''fail'' then ((''boom'', Some ''exit status 1''), x)
      else ((''ran '' @ command, None), x))"

definition demoOS :: "unit os" where
  "demoOS =
     \<lparr>shell = demoShell,
      chdir = (\<lambda>dir d x. if dir = ''/missing'' then Inl ''chdir /missing: no such file or directory''
                          else Inr dir),
      environ = [''HOME'' \<mapsto> ''/home/u'', ''EMPTY'' \<mapsto> ''from-env''],
      clock = (\<lambda>x. ''2024-05-17 08:30:00'')\<rparr>"

definition demoWorld :: "unit world" where
  "demoWorld = \<lparr>cwd = ''/work'', ext = (), events = []\<rparr>"

definition demoTarget :: "bool \<Rightarrow> Target" where
  "demoTarget c =
     \<lparr>Run = Some [''ok1'', ''fail'', ''ok2''], Deps = None, Onerror = [], ContinueOnError = c\<rparr>"

definition demoCfg :: Config where
  "demoCfg =
     \<lparr>cfgContinueOnError = False,
      Includes = None,
      Prologue = zeroTarget,
      Vars = [''NORMAL'' \<mapsto> ''value'', ''A'' \<mapsto> ''$A!'', ''EMPTY'' \<mapsto> [], ''CC'' \<mapsto> ''gcc''],
      Targets =
        [''strict'' \<mapsto> demoTarget False,
         ''lenient'' \<mapsto> demoTarget True,
         ''parent'' \<mapsto> \<lparr>Run = Some [''ok3''], Deps = Some [''main.c'', ''strict''],
                         Onerror = [], ContinueOnError = True\<rparr>,
         ''declared'' \<mapsto> \<lparr>Run = Some [], Deps = None, Onerror = [], ContinueOnError = False\<rparr>,
         ''ghost'' \<mapsto> \<lparr>Run = None, Deps = None, Onerror = ''gone'', ContinueOnError = True\<rparr>,
         ''bare'' \<mapsto> \<lparr>Run = None, Deps = Some [], Onerror = [], ContinueOnError = False\<rparr>,
         ''P'' \<mapsto> \<lparr>Run = Some [''echo p''], Deps = Some [''strict'', ''Q''],
                    Onerror = [], ContinueOnError = False\<rparr>,
         ''Q'' \<mapsto> \<lparr>Run = Some [''echo q''], Deps = Some [''P''], Onerror = [], ContinueOnError = False\<rparr>,
         ''A'' \<mapsto> \<lparr>Run = Some [''echo a''], Deps = Some [''B''], Onerror = [], ContinueOnError = False\<rparr>,
         ''B'' \<mapsto> \<lparr>Run = Some [''echo b''], Deps = Some [''A''], Onerror = [], ContinueOnError = False\<rparr>],
      Epilogue = zeroTarget\<rparr>"

text \<open>
  The worlds the sample commands \<open>ok1\<close>, \<open>fail\<close>, \<open>ok2\<close> lead to from \<open>demoWorld\<close>:
  after the first command, after the failing one, and after all three with the warning
  in between.
\<close>

definition afterOk1 :: "unit world" where
  "afterOk1 =
     \<lparr>cwd = ''/work'', ext = (),
      events = [Stdout (''ok1'' @ [LF]), Spawn ''ok1'', Stdout ''ran ok1'']\<rparr>"

definition afterFail :: "unit world" where
  "afterFail =
     \<lparr>cwd = ''/work'', ext = (),
      events = [Stdout (''ok1'' @ [LF]), Spawn ''ok1'', Stdout ''ran ok1'',
                Stdout (''fail'' @ [LF]), Spawn ''fail'']\<rparr>"

definition afterAll :: "unit world" where
  "afterAll =
     \<lparr>cwd = ''/work'', ext = (),
      events = [Stdout (''ok1'' @ [LF]), Spawn ''ok1'', Stdout ''ran ok1'',
                Stdout (''fail'' @ [LF]), Spawn ''fail'',
                Stderr (''Warning: in lenient -> '' @ [LF] @ ''exit status 1'' @ [LF]), Stdout ''boom'',
                Stdout (''ok2'' @ [LF]), Spawn ''ok2'', Stdout ''ran ok2'']\<rparr>"

section \<open>White space\<close>

lemma leadingSpace_Nil: "leadingSpace runes [] = None"
  by (simp add: leadingSpace_def find_None_iff HasPrefix_def)

lemma trimLeading_Nil: "trimLeading runes [] = []"
  by (simp add: trimLeading.simps leadingSpace_Nil)

text \<open>No encoding of a white-space code point is a prefix of another.\<close>

lemma spaceRunes_prefix_free:
  "list_all (\<lambda>p. p \<noteq> [] \<and>
      list_all (\<lambda>q. (take (length q) p = q \<or> take (length p) q = p) \<longrightarrow> p = q) spaceRunes)
    spaceRunes"
  by code_simp

lemma HasPrefix_append_cases:
  assumes "HasPrefix (p @ t) q"
  shows "take (length q) p = q \<or> take (length p) q = p"
proof (cases "length q \<le> length p")
  case True
  with assms show ?thesis by (simp add: HasPrefix_def)
next
  case False
  with assms have "q = p @ take (length q - length p) t" by (simp add: HasPrefix_def)
  then have "take (length p) q = p" by (metis append_eq_conv_conj)
  then show ?thesis ..
qed

lemma find_unique:
  assumes "p \<in> set xs" and "P p" and "\<And>q. q \<in> set xs \<Longrightarrow> P q \<Longrightarrow> q = p"
  shows "find P xs = Some p"
proof (cases "find P xs")
  case None
  with assms(1,2) show ?thesis by (auto simp: find_None_iff)
next
  case (Some q)
  then have "q \<in> set xs" and "P q" by (auto simp: find_Some_iff)
  with assms(3) Some show ?thesis by simp
qed

lemma leadingSpace_rune:
  assumes "p \<in> set spaceRunes"
  shows "leadingSpace spaceRunes (p @ t) = Some p"
  unfolding leadingSpace_def
proof (rule find_unique [OF assms])
  from assms spaceRunes_prefix_free show "p \<noteq> [] \<and> HasPrefix (p @ t) p"
    by (auto simp: list_all_iff HasPrefix_def)
next
  fix q assume q: "q \<in> set spaceRunes" and "q \<noteq> [] \<and> HasPrefix (p @ t) q"
  then have "take (length q) p = q \<or> take (length p) q = p"
    using HasPrefix_append_cases by blast
  with assms q spaceRunes_prefix_free show "q = p"
    unfolding list_all_iff by blast
qed

lemma trimLeading_spaces:
  "set rs \<subseteq> set spaceRunes \<Longrightarrow> trimLeading spaceRunes (concat rs) = []"
proof (induction rs)
  case Nil
  show ?case by (simp add: trimLeading_Nil)
next
  case (Cons p rs)
  then have p: "p \<in> set spaceRunes" and rs: "set rs \<subseteq> set spaceRunes" by auto
  have "trimLeading spaceRunes (concat (p # rs)) = trimLeading spaceRunes (concat rs)"
    using leadingSpace_rune [OF p, of "concat rs"]
    by (simp add: trimLeading.simps [of spaceRunes "p @ concat rs"])
  with Cons.IH [OF rs] show ?case by simp
qed

lemma TrimSpace_whitespaceOnly: "whitespaceOnly s \<Longrightarrow> TrimSpace s = []"
  by (auto simp: whitespaceOnly_def TrimSpace_def trimLeading_spaces trimLeading_Nil)

section \<open>Dispatch\<close>

lemma isOsCall_simps [simp]:
  "isOsCall (Stdout t) = False" "isOsCall (Stderr t) = False"
  "isOsCall (Spawn c) = True" "isOsCall (Chdir d) = True"
  by (simp_all add: isOsCall_def)

text \<open>
  C8. A dry-run dispatch returns empty output and no error for every command, whatever
  the command would have done. It does not reach the operating system: nothing is
  spawned, no directory is changed, the working directory and the outside state stay as
  they are, and the result is the same under any operating system. All it does is write
  the intended command to standard output.
\<close>

theorem dry_run_dispatch:
  "fst (ExecuteCommandWithContext os command verbose True w) = ([], None)
   \<and> cwd (snd (ExecuteCommandWithContext os command verbose True w)) = cwd w
   \<and> ext (snd (ExecuteCommandWithContext os command verbose True w)) = ext w
   \<and> filter isOsCall (events (snd (ExecuteCommandWithContext os command verbose True w)))
       = filter isOsCall (events w)
   \<and> ExecuteCommandWithContext os' command verbose True w
       = ExecuteCommandWithContext os command verbose True w"
  by (simp add: ExecuteCommandWithContext_def emit_def Let_def)

theorem dry_run_dispatch_witness:
  "fst (ExecuteCommandWithContext demoOS ''cd /missing'' False True demoWorld) = ([], None)
   \<and> cwd (snd (ExecuteCommandWithContext demoOS ''cd /missing'' False True demoWorld)) = ''/work''
   \<and> fst (ExecuteCommandWithContext demoOS ''fail'' True True demoWorld) = ([], None)
   \<and> fst (ExecuteCommandWithContext demoOS [] True True demoWorld) = ([], None)
   \<and> filter isOsCall (events (snd (ExecuteCommandWithContext demoOS ''fail'' True True demoWorld))) = []"
  using dry_run_dispatch [of demoOS "''cd /missing''" False demoWorld demoOS]
    dry_run_dispatch [of demoOS "''fail''" True demoWorld demoOS]
    dry_run_dispatch [of demoOS "[]" True demoWorld demoOS]
  by (simp add: demoWorld_def)

text \<open>
  C9, as amended. For a command that is empty or made of white space only, a dispatch
  that is not a dry run returns the error \<open>empty command\<close> and empty output, and it
  does not reach the operating system; \<open>ExecuteCommand\<close> leaves the world as it is. A
  dry-run dispatch of the same command returns empty output and no error.
\<close>

theorem empty_command_dispatch:
  "whitespaceOnly command \<Longrightarrow>
   ExecuteCommand os command w = (([], Some ''empty command''), w)
   \<and> fst (ExecuteCommandWithContext os command verbose False w) = ([], Some ''empty command'')
   \<and> filter isOsCall (events (snd (ExecuteCommandWithContext os command verbose False w)))
       = filter isOsCall (events w)
   \<and> fst (ExecuteCommandWithContext os command verbose True w) = ([], None)"
  by (simp add: ExecuteCommandWithContext_def ExecuteCommand_def TrimSpace_whitespaceOnly emit_def)

lemma whitespaceOnly_example: "whitespaceOnly [CHR 0x20, CHR 0x09, CHR 0xC2, CHR 0xA0]"
  unfolding whitespaceOnly_def
  by (rule exI [of _ "[[CHR 0x20], [CHR 0x09], [CHR 0xC2, CHR 0xA0]]"]) (simp add: spaceRunes_def)

lemma whitespaceOnly_Nil: "whitespaceOnly []"
  unfolding whitespaceOnly_def by (rule exI [of _ "[]"]) simp

theorem empty_command_dispatch_witness:
  "whitespaceOnly [CHR 0x20, CHR 0x09, CHR 0xC2, CHR 0xA0]
   \<and> ExecuteCommand demoOS [CHR 0x20, CHR 0x09, CHR 0xC2, CHR 0xA0] demoWorld
       = (([], Some ''empty command''), demoWorld)
   \<and> fst (ExecuteCommandWithContext demoOS [CHR 0x20, CHR 0x09, CHR 0xC2, CHR 0xA0] True False demoWorld)
       = ([], Some ''empty command'')"
  using empty_command_dispatch [OF whitespaceOnly_example, of demoOS demoWorld True]
    whitespaceOnly_example
  by simp

text \<open>
  The claim as it stands fails in a dry run: the empty command is dispatched without an
  error. The older \<open>ExecuteCommand\<close>, which has no check, hands the empty command to the
  shell and returns what the shell returns.
\<close>

theorem empty_command_dry_run_counterexample:
  "whitespaceOnly []
   \<and> snd (fst (ExecuteCommandWithContext demoOS [] False True demoWorld)) = None
   \<and> snd (fst (ExecuteCommand_old demoOS [] demoWorld)) = None"
  using whitespaceOnly_Nil
  by (simp add: ExecuteCommandWithContext_def ExecuteCommand_old_def HasPrefix_def
      demoOS_def demoShell_def emit_def)

section \<open>The dependency walk\<close>

lemma walk_RunDeps_Nil: "walk os cfg verbose dryRun (RunDeps []) w = Some (None, w)"
  by (simp add: walk.simps)

lemma walk_RunDeps_Cons:
  "walk os cfg verbose dryRun (RunDeps (dep # deps)) w =
     (if ContainsDot dep then
        walk os cfg verbose dryRun (RunDeps deps)
          (if verbose then emit (Stdout (''Checking file dependency: '' @ dep @ [LF])) w else w)
      else
        Option.bind (walk os cfg verbose dryRun (RunTarget dep) w)
          (\<lambda>(err, w').
             case err of
               Some e \<Rightarrow> Some (Some e, w')
             | None \<Rightarrow> walk os cfg verbose dryRun (RunDeps deps) w'))"
  by (subst walk.simps) simp

lemma walk_RunTarget:
  "walk os cfg verbose dryRun (RunTarget name) w =
     Option.bind (walk os cfg verbose dryRun (RunDeps (elems (Deps (GetTarget cfg name)))) w)
       (\<lambda>(err, w').
          case err of
            Some e \<Rightarrow> Some (Some e, w')
          | None \<Rightarrow>
              if Run (GetTarget cfg name) = None \<and> Deps (GetTarget cfg name) = None then
                Some (Some (NotFoundError name
                              (''target '' @ [CHR 0x27] @ name @ [CHR 0x27] @ '' not found'')), w')
              else Some (ExecuteAllWithContext os cfg name (GetTarget cfg name) verbose dryRun w'))"
  by (subst walk.simps) (simp add: Let_def)

lemma walk_Some_not_entersCycle:
  assumes "walk os cfg verbose dryRun c w = Some y"
  shows "cycleClosed cfg S \<longrightarrow> \<not> entersCycle S c"
proof (rule walk.raw_induct
    [where P = "\<lambda>os cfg v d c w y. cycleClosed cfg S \<longrightarrow> \<not> entersCycle S c", OF _ assms])
  fix walk' :: "'a os \<Rightarrow> Config \<Rightarrow> bool \<Rightarrow> bool \<Rightarrow> call \<Rightarrow> 'a world \<Rightarrow> (orpheus_error option \<times> 'a world) option"
  fix os cfg v d c w y
  assume IH: "\<And>os cfg v d c w y. walk' os cfg v d c w = Some y \<Longrightarrow> cycleClosed cfg S \<longrightarrow> \<not> entersCycle S c"
  assume body:
    "(case c of
        RunDeps [] \<Rightarrow> Some (None, w)
      | RunDeps (dep # deps) \<Rightarrow>
          if ContainsDot dep then
            walk' os cfg v d (RunDeps deps)
              (if v then emit (Stdout (''Checking file dependency: '' @ dep @ [LF])) w else w)
          else
            Option.bind (walk' os cfg v d (RunTarget dep) w)
              (\<lambda>(err, w').
                 case err of
                   None \<Rightarrow> walk' os cfg v d (RunDeps deps) w'
                 | Some e \<Rightarrow> Some (Some e, w'))
      | RunTarget name \<Rightarrow>
          (let target = GetTarget cfg name in
           Option.bind (walk' os cfg v d (RunDeps (elems (Deps target))) w)
             (\<lambda>(err, w').
                case err of
                  None \<Rightarrow>
                    if Run target = None \<and> Deps target = None then
                      Some (Some (NotFoundError name
                                    (''target '' @ [CHR 0x27] @ name @ [CHR 0x27] @ '' not found'')), w')
                    else Some (ExecuteAllWithContext os cfg name target v d w')
                | Some e \<Rightarrow> Some (Some e, w')))) = Some y"
  show "cycleClosed cfg S \<longrightarrow> \<not> entersCycle S c"
  proof (intro impI notI)
    assume closed: "cycleClosed cfg S" and cyc: "entersCycle S c"
    show False
    proof (cases c)
      case (RunTarget n)
      with cyc have "n \<in> S" by (simp add: entersCycle_def)
      with closed have "entersCycle S (RunDeps (elems (Deps (GetTarget cfg n))))"
        by (simp add: entersCycle_def cycleClosed_def)
      moreover from body RunTarget obtain z where
        "walk' os cfg v d (RunDeps (elems (Deps (GetTarget cfg n)))) w = Some z"
        by (auto simp: Let_def bind_eq_Some_conv)
      ultimately show False using IH closed by blast
    next
      case (RunDeps deps)
      with cyc obtain t where t: "t \<in> S" "firstTargetDep deps = Some t"
        by (auto simp: entersCycle_def)
      then obtain dep rest where deps: "deps = dep # rest"
        by (cases deps) (auto simp: firstTargetDep_def)
      show False
      proof (cases "ContainsDot dep")
        case True
        with t deps have "entersCycle S (RunDeps rest)"
          by (auto simp: entersCycle_def firstTargetDep_def)
        moreover from body RunDeps deps True obtain w' where
          "walk' os cfg v d (RunDeps rest) w' = Some y" by auto
        ultimately show False using IH closed by blast
      next
        case False
        with t deps have "entersCycle S (RunTarget dep)"
          by (auto simp: entersCycle_def firstTargetDep_def)
        moreover from body RunDeps deps False obtain z where
          "walk' os cfg v d (RunTarget dep) w = Some z"
          by (auto simp: bind_eq_Some_conv)
        ultimately show False using IH closed by blast
      qed
    qed
  qed
qed

lemma walk_cycle_None:
  assumes "cycleClosed cfg S" and "entersCycle S c"
  shows "walk os cfg verbose dryRun c w = None"
  using assms walk_Some_not_entersCycle [of os cfg verbose dryRun c w _ S]
  by (cases "walk os cfg verbose dryRun c w") auto

lemma body_error_form:
  "ExecuteAllWithContext_body os cfg name target verbose dryRun cmd w = (Some e, w') \<Longrightarrow>
   \<exists>m. e = ExecutionError name m"
  by (auto simp: ExecuteAllWithContext_body_def Let_def
      split: prod.splits option.splits if_splits)

lemma loop_error_form:
  "ExecuteAllWithContext_loop os cfg name target verbose dryRun cmds w = (Some e, w') \<Longrightarrow>
   \<exists>m. e = ExecutionError name m"
proof (induction cmds arbitrary: w)
  case Nil
  then show ?case by simp
next
  case (Cons cmd cmds)
  then show ?case
    by (auto split: prod.splits option.splits dest: body_error_form)
qed

lemma ExecuteAllWithContext_error_form:
  "fst (ExecuteAllWithContext os cfg name target verbose dryRun w) = Some e \<Longrightarrow>
   \<exists>m. e = ExecutionError name m"
  unfolding ExecuteAllWithContext_def
  by (cases "ExecuteAllWithContext_loop os cfg name target verbose dryRun (elems (Run target)) w")
     (auto dest: loop_error_form)

lemma ExecuteAllWithContext_error_target:
  "fst (ExecuteAllWithContext os cfg name target verbose dryRun w) = Some e \<Longrightarrow>
   errorTarget e = name"
  by (auto simp: errorTarget_def dest: ExecuteAllWithContext_error_form)

lemma ExecuteAllWithContext_not_NotFound:
  "fst (ExecuteAllWithContext os cfg name target verbose dryRun w) \<noteq> Some (NotFoundError n m)"
  by (auto dest: ExecuteAllWithContext_error_form)

lemma NotFoundError_target [simp]: "errorTarget (NotFoundError n m) = n"
  by (simp add: errorTarget_def)

lemma walk_cycle_general:
  assumes "walk os cfg verbose dryRun c w = Some y"
  shows "cycleIn cfg S \<longrightarrow>
           (\<forall>e. fst y = Some e \<longrightarrow> errorTarget e \<notin> S) \<and> (reachesCycle S c \<longrightarrow> fst y \<noteq> None)"
proof (rule walk.raw_induct
    [where P = "\<lambda>os cfg v d c w y. cycleIn cfg S \<longrightarrow>
           (\<forall>e. fst y = Some e \<longrightarrow> errorTarget e \<notin> S) \<and> (reachesCycle S c \<longrightarrow> fst y \<noteq> None)",
     OF _ assms])
  fix walk' :: "'a os \<Rightarrow> Config \<Rightarrow> bool \<Rightarrow> bool \<Rightarrow> call \<Rightarrow> 'a world \<Rightarrow> (orpheus_error option \<times> 'a world) option"
  fix os cfg v d c w y
  assume IH: "\<And>os cfg v d c w y. walk' os cfg v d c w = Some y \<Longrightarrow> cycleIn cfg S \<longrightarrow>
           (\<forall>e. fst y = Some e \<longrightarrow> errorTarget e \<notin> S) \<and> (reachesCycle S c \<longrightarrow> fst y \<noteq> None)"
  assume body:
    "(case c of
        RunDeps [] \<Rightarrow> Some (None, w)
      | RunDeps (dep # deps) \<Rightarrow>
          if ContainsDot dep then
            walk' os cfg v d (RunDeps deps)
              (if v then emit (Stdout (''Checking file dependency: '' @ dep @ [LF])) w else w)
          else
            Option.bind (walk' os cfg v d (RunTarget dep) w)
              (\<lambda>(err, w').
                 case err of
                   None \<Rightarrow> walk' os cfg v d (RunDeps deps) w'
                 | Some e \<Rightarrow> Some (Some e, w'))
      | RunTarget name \<Rightarrow>
          (let target = GetTarget cfg name in
           Option.bind (walk' os cfg v d (RunDeps (elems (Deps target))) w)
             (\<lambda>(err, w').
                case err of
                  None \<Rightarrow>
                    if Run target = None \<and> Deps target = None then
                      Some (Some (NotFoundError name
                                    (''target '' @ [CHR 0x27] @ name @ [CHR 0x27] @ '' not found'')), w')
                    else Some (ExecuteAllWithContext os cfg name target v d w')
                | Some e \<Rightarrow> Some (Some e, w')))) = Some y"
  show "cycleIn cfg S \<longrightarrow>
           (\<forall>e. fst y = Some e \<longrightarrow> errorTarget e \<notin> S) \<and> (reachesCycle S c \<longrightarrow> fst y \<noteq> None)"
  proof
    assume cyc: "cycleIn cfg S"
    note IH' = IH [THEN mp, OF _ cyc]
    show "(\<forall>e. fst y = Some e \<longrightarrow> errorTarget e \<notin> S) \<and> (reachesCycle S c \<longrightarrow> fst y \<noteq> None)"
    proof (cases c)
      case (RunTarget n)
      from body RunTarget obtain err w1 where
        deps: "walk' os cfg v d (RunDeps (elems (Deps (GetTarget cfg n)))) w = Some (err, w1)"
        and rest: "(case err of
                  None \<Rightarrow>
                    if Run (GetTarget cfg n) = None \<and> Deps (GetTarget cfg n) = None then
                      Some (Some (NotFoundError n
                                    (''target '' @ [CHR 0x27] @ n @ [CHR 0x27] @ '' not found'')), w1)
                    else Some (ExecuteAllWithContext os cfg n (GetTarget cfg n) v d w1)
                | Some e \<Rightarrow> Some (Some e, w1)) = Some y"
        by (auto simp: Let_def bind_eq_Some_conv)
      show ?thesis
      proof (cases err)
        case (Some e)
        with rest IH' [OF deps] show ?thesis by auto
      next
        case None
        with IH' [OF deps] have "\<not> reachesCycle S (RunDeps (elems (Deps (GetTarget cfg n))))" by auto
        with cyc have n: "n \<notin> S" by (auto simp: cycleIn_def reachesCycle_def)
        have "\<forall>e. fst y = Some e \<longrightarrow> errorTarget e = n"
          using rest None
          by (auto split: if_splits dest: ExecuteAllWithContext_error_target)
        with n RunTarget show ?thesis by (auto simp: reachesCycle_def)
      qed
    next
      case (RunDeps deps)
      show ?thesis
      proof (cases deps)
        case Nil
        with body RunDeps show ?thesis by (auto simp: reachesCycle_def)
      next
        case (Cons dep rest)
        show ?thesis
        proof (cases "ContainsDot dep")
          case True
          with body RunDeps Cons obtain w1 where "walk' os cfg v d (RunDeps rest) w1 = Some y" by auto
          from IH' [OF this] True RunDeps Cons show ?thesis by (auto simp: reachesCycle_def)
        next
          case False
          with body RunDeps Cons obtain err w1 where
            t: "walk' os cfg v d (RunTarget dep) w = Some (err, w1)"
            and r: "(case err of None \<Rightarrow> walk' os cfg v d (RunDeps rest) w1
                     | Some e \<Rightarrow> Some (Some e, w1)) = Some y"
            by (auto simp: bind_eq_Some_conv)
          show ?thesis
          proof (cases err)
            case (Some e)
            with r IH' [OF t] show ?thesis by auto
          next
            case None
            with IH' [OF t] have "dep \<notin> S" by (auto simp: reachesCycle_def)
            moreover from None r have "walk' os cfg v d (RunDeps rest) w1 = Some y" by simp
            note IH' [OF this]
            ultimately show ?thesis using RunDeps Cons by (auto simp: reachesCycle_def)
          qed
        qed
      qed
    qed
  qed
qed

lemma cycleClosed_cycleIn: "cycleClosed cfg S \<Longrightarrow> cycleIn cfg S"
  by (fastforce simp: cycleClosed_def cycleIn_def firstTargetDep_def find_Some_iff)

lemma demoCfg_cycle: "cycleClosed demoCfg {''A'', ''B''}"
  by (simp add: cycleClosed_def firstTargetDep_def GetTarget_def demoCfg_def elems_def
      ContainsDot_def)

lemma demoCfg_cycle_PQ: "cycleIn demoCfg {''P'', ''Q''}"
  by (auto simp: cycleIn_def GetTarget_def demoCfg_def elems_def ContainsDot_def)

lemma demo_P_run:
  "runTargetWithContext demoOS demoCfg ''P'' False False demoWorld =
     Some (Some (ExecutionError ''strict'' (''in strict -> '' @ [LF] @ ''exit status 1'')), afterFail)"
  by code_simp

text \<open>
  C3, as amended. Nothing in the walk detects a dependency cycle. Running a target of a
  cycle never succeeds and never reports the cycle: the call returns no result at all,
  or it returns the error of a target outside the cycle (a command of it that failed, or
  its name not found); no error names a target of the cycle. When every target of the
  cycle reaches the next one as its first target dependency (as \<open>A\<close> and \<open>B\<close> depending
  on each other do), the call returns no result.
\<close>

theorem dependency_cycle_undetected:
  "cycleIn cfg S \<Longrightarrow> name \<in> S \<Longrightarrow>
   (runTargetWithContext os cfg name verbose dryRun w = Some (r, w') \<longrightarrow>
      (\<exists>e. r = Some e \<and> errorTarget e \<notin> S))
   \<and> (cycleClosed cfg S \<longrightarrow> runTargetWithContext os cfg name verbose dryRun w = None)"
proof (intro conjI impI)
  assume cyc: "cycleIn cfg S" and name: "name \<in> S"
    and run: "runTargetWithContext os cfg name verbose dryRun w = Some (r, w')"
  from run have "walk os cfg verbose dryRun (RunTarget name) w = Some (r, w')"
    by (simp add: runTargetWithContext_def)
  from walk_cycle_general [OF this, of S] cyc name
  show "\<exists>e. r = Some e \<and> errorTarget e \<notin> S"
    by (cases r) (auto simp: reachesCycle_def)
next
  assume "name \<in> S" and "cycleClosed cfg S"
  then show "runTargetWithContext os cfg name verbose dryRun w = None"
    unfolding runTargetWithContext_def
    by (intro walk_cycle_None [where S = S]) (simp_all add: entersCycle_def)
qed

theorem dependency_cycle_undetected_witness:
  "cycleIn demoCfg {''P'', ''Q''}
   \<and> runTargetWithContext demoOS demoCfg ''P'' False False demoWorld =
       Some (Some (ExecutionError ''strict'' (''in strict -> '' @ [LF] @ ''exit status 1'')), afterFail)
   \<and> errorTarget (ExecutionError ''strict'' (''in strict -> '' @ [LF] @ ''exit status 1'')) \<notin> {''P'', ''Q''}
   \<and> cycleIn demoCfg {''A'', ''B''} \<and> cycleClosed demoCfg {''A'', ''B''}
   \<and> runTargetWithContext demoOS demoCfg ''B'' True False demoWorld = None"
  using dependency_cycle_undetected [OF demoCfg_cycle_PQ, of "''P''" demoOS False False demoWorld
      "Some (ExecutionError ''strict'' (''in strict -> '' @ [LF] @ ''exit status 1''))" afterFail]
    dependency_cycle_undetected [OF cycleClosed_cycleIn [OF demoCfg_cycle], of "''B''" demoOS True False
      demoWorld]
    demoCfg_cycle_PQ demoCfg_cycle cycleClosed_cycleIn [OF demoCfg_cycle] demo_P_run
  by simp

text \<open>
  The claim as it stands fails for \<open>A\<close> depending on \<open>B\<close> and \<open>B\<close> on \<open>A\<close>: running \<open>A\<close>
  returns no result, so no cycle error is returned.
\<close>

theorem dependency_cycle_counterexample:
  "runTargetWithContext demoOS demoCfg ''A'' False False demoWorld = None"
  unfolding runTargetWithContext_def
  by (rule walk_cycle_None [OF demoCfg_cycle]) (simp add: entersCycle_def)

lemma walk_RunDeps_append:
  assumes "walk os cfg verbose dryRun (RunDeps pre) w = Some (None, w1)"
  shows "walk os cfg verbose dryRun (RunDeps (pre @ deps)) w = walk os cfg verbose dryRun (RunDeps deps) w1"
  using assms
proof (induction pre arbitrary: w)
  case Nil
  then show ?case by (simp add: walk_RunDeps_Nil)
next
  case (Cons dep pre)
  show ?case
  proof (cases "ContainsDot dep")
    case True
    with Cons show ?thesis by (simp add: walk_RunDeps_Cons)
  next
    case False
    with Cons.prems obtain r w' where
      r: "walk os cfg verbose dryRun (RunTarget dep) w = Some (r, w')"
      by (auto simp: walk_RunDeps_Cons bind_eq_Some_conv)
    with Cons.prems False have "r = None" and "walk os cfg verbose dryRun (RunDeps pre) w' = Some (None, w1)"
      by (auto simp: walk_RunDeps_Cons split: option.splits)
    with Cons.IH [of w'] r False show ?thesis by (simp add: walk_RunDeps_Cons)
  qed
qed

lemma walk_RunDeps_error:
  assumes "\<not> ContainsDot dep"
    and "walk os cfg verbose dryRun (RunTarget dep) w = Some (Some e, w')"
  shows "walk os cfg verbose dryRun (RunDeps (dep # rest)) w = Some (Some e, w')"
  using assms by (simp add: walk_RunDeps_Cons)

lemma walk_RunTarget_deps_error:
  assumes "walk os cfg verbose dryRun (RunDeps (elems (Deps (GetTarget cfg name)))) w = Some (Some e, w')"
  shows "walk os cfg verbose dryRun (RunTarget name) w = Some (Some e, w')"
  using assms by (simp add: walk_RunTarget)

lemma walk_RunTarget_commands:
  assumes "walk os cfg verbose dryRun (RunDeps (elems (Deps (GetTarget cfg name)))) w = Some (None, w1)"
    and "\<not> (Run (GetTarget cfg name) = None \<and> Deps (GetTarget cfg name) = None)"
  shows "walk os cfg verbose dryRun (RunTarget name) w =
           Some (ExecuteAllWithContext os cfg name (GetTarget cfg name) verbose dryRun w1)"
  using assms by (auto simp add: walk_RunTarget)

text \<open>
  C2, as amended. When the lookup of a name yields a target whose \<open>run\<close> and \<open>deps\<close> are
  both \<open>nil\<close> (the zero value an undeclared name gives, or a declared target that sets
  neither), running it returns the not-found error at once: nothing is executed, and the
  continuation settings of the target and of the configuration play no part. A target
  whose \<open>run\<close> or \<open>deps\<close> is not \<open>nil\<close> is not treated as not found, however empty the
  lists are: once its dependencies have run without error the result is that of its own
  commands, which is never a not-found error, and with both lists empty the run returns
  no error and leaves the world as it is.
\<close>

theorem not_found_aborts:
  "(Run (GetTarget cfg name) = None \<and> Deps (GetTarget cfg name) = None \<longrightarrow>
      runTargetWithContext os cfg name verbose dryRun w =
        Some (Some (NotFoundError name (''target '' @ [CHR 0x27] @ name @ [CHR 0x27] @ '' not found'')), w))
   \<and> (\<not> (Run (GetTarget cfg name) = None \<and> Deps (GetTarget cfg name) = None) \<longrightarrow>
        walk os cfg verbose dryRun (RunDeps (elems (Deps (GetTarget cfg name)))) w = Some (None, w1) \<longrightarrow>
        runTargetWithContext os cfg name verbose dryRun w =
          Some (ExecuteAllWithContext os cfg name (GetTarget cfg name) verbose dryRun w1)
        \<and> fst (ExecuteAllWithContext os cfg name (GetTarget cfg name) verbose dryRun w1)
            \<noteq> Some (NotFoundError n m))
   \<and> (\<not> (Run (GetTarget cfg name) = None \<and> Deps (GetTarget cfg name) = None) \<longrightarrow>
        elems (Run (GetTarget cfg name)) = [] \<longrightarrow> elems (Deps (GetTarget cfg name)) = [] \<longrightarrow>
        runTargetWithContext os cfg name verbose dryRun w = Some (None, w))"
proof (intro conjI impI)
  assume "Run (GetTarget cfg name) = None \<and> Deps (GetTarget cfg name) = None"
  then show "runTargetWithContext os cfg name verbose dryRun w =
        Some (Some (NotFoundError name (''target '' @ [CHR 0x27] @ name @ [CHR 0x27] @ '' not found'')), w)"
    by (simp add: runTargetWithContext_def walk_RunTarget elems_def walk_RunDeps_Nil)
next
  assume "\<not> (Run (GetTarget cfg name) = None \<and> Deps (GetTarget cfg name) = None)"
    and "walk os cfg verbose dryRun (RunDeps (elems (Deps (GetTarget cfg name)))) w = Some (None, w1)"
  then show "runTargetWithContext os cfg name verbose dryRun w =
          Some (ExecuteAllWithContext os cfg name (GetTarget cfg name) verbose dryRun w1)"
    unfolding runTargetWithContext_def by (intro walk_RunTarget_commands)
next
  show "fst (ExecuteAllWithContext os cfg name (GetTarget cfg name) verbose dryRun w1)
            \<noteq> Some (NotFoundError n m)"
    by (rule ExecuteAllWithContext_not_NotFound)
next
  assume "\<not> (Run (GetTarget cfg name) = None \<and> Deps (GetTarget cfg name) = None)"
    and "elems (Run (GetTarget cfg name)) = []" and "elems (Deps (GetTarget cfg name)) = []"
  then show "runTargetWithContext os cfg name verbose dryRun w = Some (None, w)"
    by (auto simp: runTargetWithContext_def walk_RunTarget walk_RunDeps_Nil ExecuteAllWithContext_def)
qed

lemma demo_ghost:
  "Run (GetTarget (demoCfg\<lparr>cfgContinueOnError := True\<rparr>) ''ghost'') = None
   \<and> Deps (GetTarget (demoCfg\<lparr>cfgContinueOnError := True\<rparr>) ''ghost'') = None
   \<and> ContinueOnError (GetTarget (demoCfg\<lparr>cfgContinueOnError := True\<rparr>) ''ghost'')
   \<and> cfgContinueOnError (demoCfg\<lparr>cfgContinueOnError := True\<rparr>)"
  by (simp add: GetTarget_def demoCfg_def)

lemma demo_bare:
  "Run (GetTarget demoCfg ''bare'') = None \<and> Deps (GetTarget demoCfg ''bare'') = Some []
   \<and> elems (Run (GetTarget demoCfg ''bare'')) = [] \<and> elems (Deps (GetTarget demoCfg ''bare'')) = []"
  by code_simp

theorem not_found_aborts_witness:
  "Run (GetTarget (demoCfg\<lparr>cfgContinueOnError := True\<rparr>) ''ghost'') = None
   \<and> Deps (GetTarget (demoCfg\<lparr>cfgContinueOnError := True\<rparr>) ''ghost'') = None
   \<and> ContinueOnError (GetTarget (demoCfg\<lparr>cfgContinueOnError := True\<rparr>) ''ghost'')
   \<and> cfgContinueOnError (demoCfg\<lparr>cfgContinueOnError := True\<rparr>)
   \<and> runTargetWithContext demoOS (demoCfg\<lparr>cfgContinueOnError := True\<rparr>) ''ghost'' False False demoWorld =
       Some (Some (NotFoundError ''ghost'' (''target '' @ [CHR 0x27] @ ''ghost'' @ [CHR 0x27] @ '' not found'')),
             demoWorld)
   \<and> Run (GetTarget demoCfg ''bare'') = None \<and> Deps (GetTarget demoCfg ''bare'') = Some []
   \<and> runTargetWithContext demoOS demoCfg ''bare'' False False demoWorld = Some (None, demoWorld)"
  using demo_ghost demo_bare
    not_found_aborts [of "demoCfg\<lparr>cfgContinueOnError := True\<rparr>" "''ghost''" demoOS False False demoWorld]
    not_found_aborts [of demoCfg "''bare''" demoOS False False demoWorld]
  by (simp add: elems_def)

text \<open>
  The claim as it stands fails for a declared target whose \<open>run\<close> list is empty but not
  \<open>nil\<close>: it has neither commands nor dependencies, and running it returns no error.
\<close>

theorem not_found_counterexample:
  "elems (Run (GetTarget demoCfg ''declared'')) = []
   \<and> elems (Deps (GetTarget demoCfg ''declared'')) = []
   \<and> runTargetWithContext demoOS demoCfg ''declared'' False False demoWorld = Some (None, demoWorld)"
  by code_simp

text \<open>
  In the older engine the not-found exception follows the continuation setting: with the
  setting on, \<open>RunTarget\<close> writes the message and returns normally.
\<close>

lemma walk_old_RunDeps_Nil: "walk_old os cfg (RunDeps []) w = Some (None, w)"
  by (simp add: walk_old.simps)

lemma walk_old_RunTarget:
  "walk_old os cfg (RunTarget name) w =
     Option.bind (walk_old os cfg (RunDeps (elems (Deps (GetTarget cfg name)))) w)
       (\<lambda>(exited, w').
          case exited of
            Some n \<Rightarrow> Some (Some n, w')
          | None \<Rightarrow>
              (case (if Run (GetTarget cfg name) = None \<and> Deps (GetTarget cfg name) = None
                     then RaiseException TARGET_NOT_FOUND name
                            (SkipError cfg (ContinueOnError (GetTarget cfg name))) w'
                     else (None, w')) of
                 (Some n, w'') \<Rightarrow> Some (Some n, w'')
               | (None, w'') \<Rightarrow>
                   Some (ExecuteAll_old os cfg name (GetTarget cfg name) w'')))"
  by (subst walk_old.simps, unfold Let_def, simp)

lemma not_found_old:
  assumes "Run (GetTarget cfg name) = None" and "Deps (GetTarget cfg name) = None"
  shows "RunTarget_old os cfg name w =
           Some (if SkipError cfg (ContinueOnError (GetTarget cfg name)) then None else Some 1,
                 emit (Stderr (''Target '' @ name @ '' Not Found'' @ [LF])) w)"
  by (simp add: RunTarget_old_def walk_old_RunTarget assms elems_def walk_old_RunDeps_Nil
      RaiseException_def Exps_def exception_number_def ExecuteAll_old_def Let_def)

lemma not_found_old_continues:
  "RunTarget_old demoOS (demoCfg\<lparr>cfgContinueOnError := True\<rparr>) ''nope'' demoWorld =
     Some (None, emit (Stderr (''Target nope Not Found'' @ [LF])) demoWorld)"
  by code_simp

section \<open>The continuation policy\<close>

lemma body_continue:
  "effectiveContinue cfg target \<Longrightarrow>
   fst (ExecuteAllWithContext_body os cfg name target verbose dryRun cmd w) = None"
  by (auto simp: ExecuteAllWithContext_body_def effectiveContinue_def Let_def
      split: prod.splits option.splits)

lemma body_warning:
  assumes "effectiveContinue cfg target"
    and "ParseVars os cfg cmd name w = (cmd', w1)"
    and "ExecuteCommandWithContext os cmd' verbose False w1 = ((out, Some err), w2)"
  shows "ExecuteAllWithContext_body os cfg name target verbose False cmd w =
           (None, printOutput out (emit (Stderr (''Warning: '' @ diagnostic name target err @ [LF])) w2))"
  using assms
  by (auto simp: ExecuteAllWithContext_body_def effectiveContinue_def diagnostic_def
      printOutput_def Let_def)

lemma body_abort:
  assumes "\<not> effectiveContinue cfg target"
    and "ParseVars os cfg cmd name w = (cmd', w1)"
    and "ExecuteCommandWithContext os cmd' verbose False w1 = ((out, Some err), w2)"
  shows "ExecuteAllWithContext_body os cfg name target verbose False cmd w =
           (Some (ExecutionError name (diagnostic name target err)), w2)"
  using assms
  by (auto simp: ExecuteAllWithContext_body_def effectiveContinue_def diagnostic_def Let_def)

lemma loop_no_error:
  assumes "\<And>cmd w. fst (ExecuteAllWithContext_body os cfg name target verbose dryRun cmd w) = None"
  shows "ExecuteAllWithContext_loop os cfg name target verbose dryRun cmds w =
           (None, foldl (\<lambda>w cmd. snd (ExecuteAllWithContext_body os cfg name target verbose dryRun cmd w)) w cmds)"
proof (induction cmds arbitrary: w)
  case Nil
  show ?case by simp
next
  case (Cons cmd cmds)
  obtain r w' where r: "ExecuteAllWithContext_body os cfg name target verbose dryRun cmd w = (r, w')"
    by (cases "ExecuteAllWithContext_body os cfg name target verbose dryRun cmd w")
  with assms [of cmd w] have "r = None" by simp
  with r Cons.IH [of w'] show ?case by simp
qed

lemma loop_abort:
  assumes "ExecuteAllWithContext_loop os cfg name target verbose dryRun pre w = (None, w1)"
    and "ExecuteAllWithContext_body os cfg name target verbose dryRun c w1 = (Some e, w2)"
  shows "ExecuteAllWithContext_loop os cfg name target verbose dryRun (pre @ c # post) w = (Some e, w2)"
  using assms
proof (induction pre arbitrary: w)
  case Nil
  then show ?case by simp
next
  case (Cons a pre)
  then show ?case
    by (auto split: prod.splits option.splits)
qed





text \<open>
  C1. With the effective continuation setting (the target's or the global one) on, every
  command of the target gets its turn and no error is returned; a command that fails
  logs one warning with the composed diagnostic, and the loop goes on. With the setting
  off, the first command that fails ends the loop: the commands after it are not run, and
  the composed error is returned. The error of a target's commands is the result of
  running the target, and the dependency walk hands the error of a dependency (the first
  one to fail, after the dependencies before it have run) to the target that depends on
  it, whatever the continuation setting of that target.
\<close>

theorem continuation_policy:
  "(effectiveContinue cfg target \<longrightarrow>
      ExecuteAllWithContext os cfg name target verbose dryRun w =
        (None, foldl (\<lambda>w cmd. snd (ExecuteAllWithContext_body os cfg name target verbose dryRun cmd w))
                 w (elems (Run target))))
   \<and> (effectiveContinue cfg target \<longrightarrow>
        ParseVars os cfg cmd name w = (cmd', w1) \<longrightarrow>
        ExecuteCommandWithContext os cmd' verbose False w1 = ((out, Some err), w2) \<longrightarrow>
        ExecuteAllWithContext_body os cfg name target verbose False cmd w =
          (None, printOutput out (emit (Stderr (''Warning: '' @ diagnostic name target err @ [LF])) w2)))
   \<and> (\<not> effectiveContinue cfg target \<longrightarrow>
        elems (Run target) = pre @ cmd # post \<longrightarrow>
        ExecuteAllWithContext_loop os cfg name target verbose False pre w = (None, w0) \<longrightarrow>
        ParseVars os cfg cmd name w0 = (cmd', w1) \<longrightarrow>
        ExecuteCommandWithContext os cmd' verbose False w1 = ((out, Some err), w2) \<longrightarrow>
        ExecuteAllWithContext os cfg name target verbose False w =
          (Some (ExecutionError name (diagnostic name target err)), w2))
   \<and> (RunDepsWithContext os cfg (GetTarget cfg name) verbose dryRun w = Some (None, w0) \<longrightarrow>
        \<not> (Run (GetTarget cfg name) = None \<and> Deps (GetTarget cfg name) = None) \<longrightarrow>
        runTargetWithContext os cfg name verbose dryRun w =
          Some (ExecuteAllWithContext os cfg name (GetTarget cfg name) verbose dryRun w0))
   \<and> (\<not> ContainsDot name \<longrightarrow>
        walk os cfg verbose dryRun (RunDeps before) w = Some (None, w0) \<longrightarrow>
        runTargetWithContext os cfg name verbose dryRun w0 = Some (Some e, w') \<longrightarrow>
        walk os cfg verbose dryRun (RunDeps (before @ name # rest)) w = Some (Some e, w'))
   \<and> (RunDepsWithContext os cfg (GetTarget cfg parent) verbose dryRun w = Some (Some e, w') \<longrightarrow>
        runTargetWithContext os cfg parent verbose dryRun w = Some (Some e, w'))"
proof (intro conjI impI)
  assume "effectiveContinue cfg target"
  then show "ExecuteAllWithContext os cfg name target verbose dryRun w =
        (None, foldl (\<lambda>w cmd. snd (ExecuteAllWithContext_body os cfg name target verbose dryRun cmd w))
                 w (elems (Run target)))"
    unfolding ExecuteAllWithContext_def by (intro loop_no_error body_continue)
next
  assume "effectiveContinue cfg target"
    and "ParseVars os cfg cmd name w = (cmd', w1)"
    and "ExecuteCommandWithContext os cmd' verbose False w1 = ((out, Some err), w2)"
  then show "ExecuteAllWithContext_body os cfg name target verbose False cmd w =
          (None, printOutput out (emit (Stderr (''Warning: '' @ diagnostic name target err @ [LF])) w2))"
    by (rule body_warning)
next
  assume "\<not> effectiveContinue cfg target"
    and run: "elems (Run target) = pre @ cmd # post"
    and pre: "ExecuteAllWithContext_loop os cfg name target verbose False pre w = (None, w0)"
    and "ParseVars os cfg cmd name w0 = (cmd', w1)"
    and "ExecuteCommandWithContext os cmd' verbose False w1 = ((out, Some err), w2)"
  then have "ExecuteAllWithContext_body os cfg name target verbose False cmd w0 =
      (Some (ExecutionError name (diagnostic name target err)), w2)"
    by (intro body_abort)
  with pre show "ExecuteAllWithContext os cfg name target verbose False w =
          (Some (ExecutionError name (diagnostic name target err)), w2)"
    unfolding ExecuteAllWithContext_def run by (rule loop_abort)
next
  assume "RunDepsWithContext os cfg (GetTarget cfg name) verbose dryRun w = Some (None, w0)"
    and "\<not> (Run (GetTarget cfg name) = None \<and> Deps (GetTarget cfg name) = None)"
  then show "runTargetWithContext os cfg name verbose dryRun w =
          Some (ExecuteAllWithContext os cfg name (GetTarget cfg name) verbose dryRun w0)"
    unfolding RunDepsWithContext_def runTargetWithContext_def by (rule walk_RunTarget_commands)
next
  assume "\<not> ContainsDot name"
    and before: "walk os cfg verbose dryRun (RunDeps before) w = Some (None, w0)"
    and "runTargetWithContext os cfg name verbose dryRun w0 = Some (Some e, w')"
  then have "walk os cfg verbose dryRun (RunDeps (name # rest)) w0 = Some (Some e, w')"
    unfolding runTargetWithContext_def by (intro walk_RunDeps_error)
  with walk_RunDeps_append [OF before, of "name # rest"]
  show "walk os cfg verbose dryRun (RunDeps (before @ name # rest)) w = Some (Some e, w')"
    by simp
next
  assume "RunDepsWithContext os cfg (GetTarget cfg parent) verbose dryRun w = Some (Some e, w')"
  then show "runTargetWithContext os cfg parent verbose dryRun w = Some (Some e, w')"
    unfolding RunDepsWithContext_def runTargetWithContext_def by (rule walk_RunTarget_deps_error)
qed

text \<open>
  The scenario with the commands \<open>ok1\<close>, \<open>fail\<close>, \<open>ok2\<close>. With the setting on, all three
  are spawned, one warning is logged and no error is returned; with it off, \<open>ok2\<close> is not
  spawned and the error comes back, also through the target \<open>parent\<close> that depends on
  the failing one (and has the setting on itself).
\<close>

lemma demo_settings:
  "effectiveContinue demoCfg (demoTarget True) \<and> \<not> effectiveContinue demoCfg (demoTarget False)"
  by code_simp

lemma demo_lenient_fold:
  "foldl (\<lambda>w cmd. snd (ExecuteAllWithContext_body demoOS demoCfg ''lenient'' (demoTarget True)
                          False False cmd w))
     demoWorld (elems (Run (demoTarget True))) = afterAll"
  by code_simp

lemma demo_strict_steps:
  "elems (Run (demoTarget False)) = [''ok1''] @ ''fail'' # [''ok2'']
   \<and> ExecuteAllWithContext_loop demoOS demoCfg ''strict'' (demoTarget False) False False [''ok1'']
       demoWorld = (None, afterOk1)
   \<and> ParseVars demoOS demoCfg ''fail'' ''strict'' afterOk1 = (''fail'', afterOk1)
   \<and> ExecuteCommandWithContext demoOS ''fail'' False False afterOk1
       = ((''boom'', Some ''exit status 1''), afterFail)
   \<and> diagnostic ''strict'' (demoTarget False) ''exit status 1''
       = ''in strict -> '' @ [LF] @ ''exit status 1''"
  by code_simp

lemma demo_parent_deps:
  "RunDepsWithContext demoOS demoCfg (GetTarget demoCfg ''parent'') False False demoWorld =
     Some (Some (ExecutionError ''strict'' (''in strict -> '' @ [LF] @ ''exit status 1'')), afterFail)
   \<and> ContinueOnError (GetTarget demoCfg ''parent'')"
  by code_simp

theorem continuation_policy_witness:
  "effectiveContinue demoCfg (demoTarget True)
   \<and> \<not> effectiveContinue demoCfg (demoTarget False)
   \<and> ExecuteAllWithContext demoOS demoCfg ''lenient'' (demoTarget True) False False demoWorld =
       (None, afterAll)
   \<and> ExecuteAllWithContext demoOS demoCfg ''strict'' (demoTarget False) False False demoWorld =
       (Some (ExecutionError ''strict'' (''in strict -> '' @ [LF] @ ''exit status 1'')), afterFail)
   \<and> ContinueOnError (GetTarget demoCfg ''parent'')
   \<and> runTargetWithContext demoOS demoCfg ''parent'' False False demoWorld =
       Some (Some (ExecutionError ''strict'' (''in strict -> '' @ [LF] @ ''exit status 1'')), afterFail)"
proof -
  note lenient =
    continuation_policy [where cfg = demoCfg and target = "demoTarget True" and os = demoOS
      and name = "''lenient''" and verbose = False and dryRun = False and w = demoWorld]
  note strict =
    continuation_policy [where cfg = demoCfg and target = "demoTarget False" and os = demoOS
      and name = "''strict''" and verbose = False and dryRun = False and w = demoWorld
      and pre = "[''ok1'']" and cmd = "''fail''" and post = "[''ok2'']" and ?w0.0 = afterOk1
      and cmd' = "''fail''" and ?w1.0 = afterOk1 and out = "''boom''" and err = "''exit status 1''"
      and ?w2.0 = afterFail]
  note parent =
    continuation_policy [where cfg = demoCfg and os = demoOS and parent = "''parent''"
      and verbose = False and dryRun = False and w = demoWorld and w' = afterFail
      and e = "ExecutionError ''strict'' (''in strict -> '' @ [LF] @ ''exit status 1'')"]
  from lenient demo_settings demo_lenient_fold
  have 1: "ExecuteAllWithContext demoOS demoCfg ''lenient'' (demoTarget True) False False demoWorld =
      (None, afterAll)"
    by simp
  from strict demo_settings demo_strict_steps
  have 2: "ExecuteAllWithContext demoOS demoCfg ''strict'' (demoTarget False) False False demoWorld =
      (Some (ExecutionError ''strict'' (''in strict -> '' @ [LF] @ ''exit status 1'')), afterFail)"
    by simp
  from parent demo_parent_deps
  have 3: "runTargetWithContext demoOS demoCfg ''parent'' False False demoWorld =
      Some (Some (ExecutionError ''strict'' (''in strict -> '' @ [LF] @ ''exit status 1'')), afterFail)"
    by simp
  from 1 2 3 demo_settings demo_parent_deps show ?thesis by simp
qed

section \<open>Variable resolution\<close>

text \<open>
  C5, as amended. For a name that is not a built-in (after the dollar signs around it are
  trimmed), \<open>GetVar\<close> of the context-aware engine returns the configured variable
  whenever the key exists, a blank value included, and the environment variable of the
  same name, or the empty string, when the key is absent. \<open>GetVar\<close> of \<open>funcs.go\<close>
  returns the configured variable only when its value is not blank, and the environment
  variable, or the empty string, otherwise.
\<close>

theorem resolve_order:
  "\<not> builtin (Trim name ''$'') \<Longrightarrow>
   GetVar os cfg name target_name w =
     (case Vars cfg (Trim name ''$'') of
        Some v \<Rightarrow> v
      | None \<Rightarrow> (case environ os (Trim name ''$'') of Some v \<Rightarrow> v | None \<Rightarrow> []))
   \<and> GetVar_old os cfg name target_name w =
     (case Vars cfg (Trim name ''$'') of
        Some v \<Rightarrow>
          if TrimSpace v = [] then (case environ os (Trim name ''$'') of Some v \<Rightarrow> v | None \<Rightarrow> [])
          else v
      | None \<Rightarrow> (case environ os (Trim name ''$'') of Some v \<Rightarrow> v | None \<Rightarrow> []))"
  by (auto simp: GetVar_def GetVar_old_def builtin_def Getenv_def Let_def TrimSpace_def trimLeading_Nil
      split: option.splits)

lemma demo_resolve:
  "\<not> builtin (Trim ''$EMPTY'' ''$'')
   \<and> Vars demoCfg (Trim ''$EMPTY'' ''$'') = Some []
   \<and> environ demoOS (Trim ''$EMPTY'' ''$'') = Some ''from-env''
   \<and> TrimSpace [] = []"
  by code_simp

theorem resolve_order_witness:
  "\<not> builtin (Trim ''$EMPTY'' ''$'')
   \<and> GetVar demoOS demoCfg ''$EMPTY'' ''t'' demoWorld = []
   \<and> GetVar_old demoOS demoCfg ''$EMPTY'' ''t'' demoWorld = ''from-env''"
  using demo_resolve resolve_order [of "''$EMPTY''" demoOS demoCfg "''t''" demoWorld]
  by simp

text \<open>
  The claim as it stands fails for \<open>GetVar\<close> of \<open>funcs.go\<close>: the key \<open>EMPTY\<close> is present
  with a blank value, and the environment variable is returned instead of it.
\<close>

theorem resolve_blank_counterexample:
  "Vars demoCfg ''EMPTY'' = Some []
   \<and> GetVar_old demoOS demoCfg ''EMPTY'' ''t'' demoWorld = ''from-env''"
  by code_simp

section \<open>Token substitution\<close>

text \<open>
  The warnings of \<open>ParseVars\<close>: one for each match whose resolution is empty, in the
  order of the matches, and nothing else changes in the world.
\<close>

lemma GetVar_emit [simp]: "GetVar os cfg name t (emit e w) = GetVar os cfg name t w"
  by (simp add: GetVar_def emit_def Let_def)

lemma resolvesEmpty_emit [simp]:
  "resolvesEmpty os cfg t (emit e w) = resolvesEmpty os cfg t w"
  by (simp add: resolvesEmpty_def fun_eq_iff)

lemma ParseVars_loop_world:
  "snd (ParseVars_loop (GetVar os cfg) t ms s w) =
     w\<lparr>events := events w @ map (undefinedWarning t) (filter (resolvesEmpty os cfg t w) ms)\<rparr>"
proof (induction ms arbitrary: s w)
  case Nil
  show ?case by simp
next
  case (Cons m ms)
  show ?case
  proof (cases "resolvesEmpty os cfg t w m")
    case True
    then show ?thesis
      using Cons.IH [of s "emit (undefinedWarning t m) w"]
      by (simp add: resolvesEmpty_def undefinedWarning_def Let_def) (simp add: emit_def)
  next
    case False
    then show ?thesis
      using Cons.IH [of _ w] by (simp add: resolvesEmpty_def Let_def)
  qed
qed

lemma ParseVars_warnings:
  "snd (ParseVars os cfg text t w) =
     w\<lparr>events := events w @
        map (undefinedWarning t) (filter (resolvesEmpty os cfg t w) (FindAllString text))\<rparr>"
  by (simp add: ParseVars_def ParseVars_loop_world)

lemma takeWhile_word:
  assumes "\<forall>c\<in>set name. isWord c" and "rest = [] \<or> \<not> isWord (hd rest)"
  shows "takeWhile isWord (name @ rest) = name"
  using assms by (cases rest) (auto simp: takeWhile_append2)

lemma matchAt_word:
  assumes "name \<noteq> []" and "\<forall>c\<in>set name. isWord c" and "rest = [] \<or> \<not> isWord (hd rest)"
  shows "matchAt (''$'' @ name @ rest) = Some (''$'' @ name)"
  using assms takeWhile_word [OF assms(2,3)] by (simp add: matchAt_def)

lemma matchAt_braced:
  assumes "body \<noteq> []" and "CHR ''}'' \<notin> set body"
  shows "matchAt (''${'' @ body @ ''}'' @ rest) = Some (''${'' @ body @ ''}'')"
proof -
  have "takeWhile (\<lambda>x. x \<noteq> CHR ''}'') (body @ CHR ''}'' # rest) = body"
    using assms(2) by (induction body) auto
  moreover have "\<not> isWord CHR ''{''" by (simp add: isWord_def)
  ultimately show ?thesis using assms(1) by (simp add: matchAt_def)
qed

lemma FindAllString_match:
  assumes "matchAt s = Some m"
  shows "FindAllString s = m # FindAllString (drop (length m) s)"
proof (cases s)
  case Nil
  with assms show ?thesis by (simp add: matchAt_def)
next
  case (Cons c cs)
  moreover from assms have "2 \<le> length m"
    by (auto simp: matchAt_def Let_def split: list.splits if_splits)
  then have "drop (length m - 1) cs = drop (length m) (c # cs)"
    by (cases "length m") auto
  ultimately show ?thesis using assms by simp
qed

lemma tokenName_word:
  assumes "\<forall>c\<in>set name. isWord c"
  shows "tokenName (''$'' @ name) = name"
proof -
  have w: "\<not> isWord CHR ''$''" "\<not> isWord CHR ''{''" "\<not> isWord CHR ''}''"
    by (simp_all add: isWord_def)
  with assms have n: "\<forall>c\<in>set name. c \<noteq> CHR ''$'' \<and> c \<noteq> CHR ''{'' \<and> c \<noteq> CHR ''}''" by auto
  have t: "\<And>P xs. \<forall>c\<in>set xs. \<not> P c \<Longrightarrow> rev (dropWhile P (rev (dropWhile P xs))) = xs"
    by (metis dropWhile_eq_self_iff empty_iff hd_in_set list.set(1) rev_rev_ident set_rev)
  have "Trim name ''{}'' = name" unfolding Trim_def by (rule t) (use n in auto)
  moreover have "Trim (''$'' @ name) ''$'' = name"
  proof -
    have "dropWhile (\<lambda>c. c \<in> set ''$'') (''$'' @ name) = dropWhile (\<lambda>c. c \<in> set ''$'') name" by simp
    also have "\<dots> = name" using n by (cases name) auto
    finally show ?thesis unfolding Trim_def using t [of name "\<lambda>c. c \<in> set ''$''"] n
      by (metis dropWhile_eq_self_iff empty_iff hd_in_set list.set(1) rev_rev_ident set_rev empty_set list.simps(15) singletonD)
  qed
  ultimately show ?thesis by (simp add: tokenName_def TrimPrefix_def HasPrefix_def)
qed

lemma Trim_framed:
  assumes "s \<noteq> []" and "hd s \<notin> set cutset" and "last s \<notin> set cutset"
    and "set pre \<subseteq> set cutset" and "set post \<subseteq> set cutset"
  shows "Trim (pre @ s @ post) cutset = s"
proof -
  have l: "dropWhile (\<lambda>c. c \<in> set cutset) (pre @ s @ post) = s @ post"
  proof -
    have "dropWhile (\<lambda>c. c \<in> set cutset) (pre @ s @ post) = dropWhile (\<lambda>c. c \<in> set cutset) (s @ post)"
      using assms(4) by (intro dropWhile_append2) auto
    also have "\<dots> = s @ post"
      using assms(1,2) by (cases s) auto
    finally show ?thesis .
  qed
  have r: "dropWhile (\<lambda>c. c \<in> set cutset) (rev (s @ post)) = rev s"
  proof -
    have "dropWhile (\<lambda>c. c \<in> set cutset) (rev post @ rev s) = dropWhile (\<lambda>c. c \<in> set cutset) (rev s)"
      using assms(5) by (intro dropWhile_append2) auto
    also have "\<dots> = rev s"
      using assms(1,3) by (cases "rev s") (auto simp: last_rev [symmetric] hd_rev)
    finally show ?thesis by simp
  qed
  show ?thesis unfolding Trim_def l r by simp
qed

lemma tokenName_braced:
  assumes "body \<noteq> []" and "hd body \<notin> set ''{}$''" and "last body \<notin> set ''{}$''"
  shows "tokenName (''${'' @ body @ ''}'') = body"
proof -
  have "Trim (''{'' @ body @ ''}'') ''{}'' = body"
    using assms by (intro Trim_framed) auto
  moreover have "Trim (''$'' @ body @ []) ''$'' = body"
    using assms by (intro Trim_framed) auto
  ultimately show ?thesis by (simp add: tokenName_def TrimPrefix_def HasPrefix_def)
qed

lemma scan_word_token:
  assumes "name \<noteq> []" and "\<forall>c\<in>set name. isWord c" and "rest = [] \<or> \<not> isWord (hd rest)"
  shows "FindAllString (''$'' @ name @ rest) = (''$'' @ name) # FindAllString rest"
    and "tokenName (''$'' @ name) = name"
  using FindAllString_match [OF matchAt_word [OF assms]] tokenName_word [OF assms(2)]
  by simp_all

lemma scan_braced_token:
  assumes "body \<noteq> []" and "CHR ''}'' \<notin> set body"
  shows "FindAllString (''${'' @ body @ ''}'' @ rest) = (''${'' @ body @ ''}'') # FindAllString rest"
  using FindAllString_match [OF matchAt_braced [OF assms, of rest]] by simp

text \<open>
  Where the content of the braces begins or ends with a brace or a dollar sign, the two
  trims shorten the name.
\<close>

lemma tokenName_shortened:
  "FindAllString ''${$CC} ${{A}'' = [''${$CC}'', ''${{A}'']
   \<and> tokenName ''${$CC}'' = ''CC'' \<and> tokenName ''${{A}'' = ''A''"
  by code_simp

lemma scan_examples:
  "FindAllString ''echo ${A B} ${A.B} $NORMAL123'' = [''${A B}'', ''${A.B}'', ''$NORMAL123'']
   \<and> tokenName ''${A B}'' = ''A B'' \<and> tokenName ''${A.B}'' = ''A.B''
   \<and> tokenName ''$NORMAL123'' = ''NORMAL123''"
  by code_simp

text \<open>
  C6. The claim: each of the N occurrences of a defined token is replaced once, and the
  inserted value is never matched again, also when it contains the text of the token.
  The code replaces, for each match, the first occurrence of the token in the working
  text, which can lie in a value inserted before. With \<open>A\<close> set to \<^verbatim>\<open>$A!\<close>, the text
  \<^verbatim>\<open>$A $A\<close> becomes \<^verbatim>\<open>$A!! $A\<close>: the inserted value is expanded again and the second
  occurrence stays.
\<close>

theorem repeated_token_evaluation:
  "Vars demoCfg ''A'' = Some ''$A!''
   \<and> FindAllString ''$A $A'' = [''$A'', ''$A'']
   \<and> ParseVars demoOS demoCfg ''$A $A'' ''t'' demoWorld = (''$A!! $A'', demoWorld)"
  by code_simp

text \<open>
  C7. The claim: an occurrence of a token whose resolution is empty stays in the text as
  it is, with one warning. The warning is there (\<open>ParseVars_warnings\<close>), but the text of
  the undefined token can be hit by the replacement of a later token: with \<open>CC\<close> set to
  \<open>gcc\<close> and \<open>CCX\<close> undefined, \<^verbatim>\<open>$CCX and $CC\<close> becomes \<^verbatim>\<open>gccX and $CC\<close>.
\<close>

theorem undefined_token_evaluation:
  "Vars demoCfg ''CCX'' = None \<and> environ demoOS ''CCX'' = None
   \<and> Vars demoCfg ''CC'' = Some ''gcc''
   \<and> FindAllString ''$CCX and $CC'' = [''$CCX'', ''$CC'']
   \<and> ParseVars demoOS demoCfg ''$CCX and $CC'' ''t'' demoWorld =
       (''gccX and $CC'',
        emit (Stderr (''[warn] undefined variable $CCX in target t'' @ [LF])) demoWorld)"
  by code_simp

text \<open>
  C10. The claim: the scanner takes \<^verbatim>\<open>$NORMAL123\<close> as one token, named \<open>NORMAL123\<close>, and
  that text is never substituted from the variable \<open>NORMAL\<close>. The scanner does so
  (\<open>scan_word_token\<close>, \<open>scan_braced_token\<close>, \<open>tokenName_braced\<close>, \<open>scan_examples\<close>), but
  the replacement of a later token \<^verbatim>\<open>$NORMAL\<close> lands on the first occurrence of that
  text, which is the beginning of \<^verbatim>\<open>$NORMAL123\<close>: \<^verbatim>\<open>$NORMAL123 $NORMAL\<close> becomes
  \<^verbatim>\<open>value123 $NORMAL\<close>.
\<close>

theorem longer_name_evaluation:
  "Vars demoCfg ''NORMAL'' = Some ''value''
   \<and> Vars demoCfg ''NORMAL123'' = None \<and> environ demoOS ''NORMAL123'' = None
   \<and> FindAllString ''$NORMAL123 $NORMAL'' = [''$NORMAL123'', ''$NORMAL'']
   \<and> fst (ParseVars demoOS demoCfg ''$NORMAL123 $NORMAL'' ''build'' demoWorld) = ''value123 $NORMAL''"
  by code_simp

end
